theory Spec2Isabelle
  imports Complex_Main
begin

section \<open>Numbers and arrays of numpy\<close>

text \<open>
  A floating-point value is either a finite number or one of the three special values of
  IEEE arithmetic. Finite arithmetic is exact (rounding to 32 bits is not modelled) and
  zero carries no sign: a zero divisor is read as \<open>+0.0\<close>. numpy does not raise on a
  division by zero, it returns an infinity or NaN, and so does \<open>fdiv\<close>.
\<close>

datatype fval = Fin real | PInf | NInf | NaN

definition inf_of_sign :: "real \<Rightarrow> fval" where
  "inf_of_sign s = (if 0 < s then PInf else if s < 0 then NInf else NaN)"

fun fsgn :: "fval \<Rightarrow> real" where
  "fsgn (Fin r) = sgn r"
| "fsgn PInf = 1"
| "fsgn NInf = - 1"
| "fsgn NaN = 0"

fun fneg :: "fval \<Rightarrow> fval" where
  "fneg (Fin r) = Fin (- r)"
| "fneg PInf = NInf"
| "fneg NInf = PInf"
| "fneg NaN = NaN"

text \<open>\<open>x > y\<close> on floats: false as soon as one side is NaN.\<close>

fun fgt :: "fval \<Rightarrow> fval \<Rightarrow> bool" where
  "fgt NaN _ = False"
| "fgt _ NaN = False"
| "fgt (Fin a) (Fin b) = (b < a)"
| "fgt PInf y = (y \<noteq> PInf)"
| "fgt _ PInf = False"
| "fgt NInf _ = False"
| "fgt (Fin a) NInf = True"

text \<open>\<open>np.maximum\<close> on two entries: NaN propagates.\<close>

fun fmax :: "fval \<Rightarrow> fval \<Rightarrow> fval" where
  "fmax NaN _ = NaN"
| "fmax _ NaN = NaN"
| "fmax x y = (if fgt y x then y else x)"

fun fdiv :: "fval \<Rightarrow> fval \<Rightarrow> fval" where
  "fdiv NaN _ = NaN"
| "fdiv _ NaN = NaN"
| "fdiv (Fin a) (Fin b) = (if b = 0 then inf_of_sign (sgn a) else Fin (a / b))"
| "fdiv (Fin a) _ = Fin 0"
| "fdiv x (Fin b) = inf_of_sign (fsgn x * (if b < 0 then - 1 else 1))"
| "fdiv _ _ = NaN"

fun fmul :: "fval \<Rightarrow> fval \<Rightarrow> fval" where
  "fmul NaN _ = NaN"
| "fmul _ NaN = NaN"
| "fmul (Fin a) (Fin b) = Fin (a * b)"
| "fmul x y = inf_of_sign (fsgn x * fsgn y)"

datatype dtype = float32 | float64 | int32 | int64

text \<open>
  An \<open>np.ndarray\<close>: its shape, its element type and its entries in row-major order.
  The entries of an integer array are finite whole numbers.
\<close>

record ndarray =
  shape :: "nat list"
  dtype :: dtype
  data :: "fval list"

definition is_int_dtype :: "dtype \<Rightarrow> bool" where
  "is_int_dtype t = (t = int32 \<or> t = int64)"

definition is_whole :: "fval \<Rightarrow> bool" where
  "is_whole x = (case x of Fin r \<Rightarrow> of_int \<lfloor>r\<rfloor> = r | _ \<Rightarrow> False)"

definition ndarray_wf :: "ndarray \<Rightarrow> bool" where
  "ndarray_wf a =
     (length (data a) = prod_list (shape a) \<and>
      (if is_int_dtype (dtype a) then list_all is_whole (data a) else True))"

text \<open>Type promotion of \<open>/\<close> and \<open>*\<close> between the four element types above.\<close>

definition result_type :: "dtype \<Rightarrow> dtype \<Rightarrow> dtype" where
  "result_type s t = (if s = float32 \<and> t = float32 then float32 else float64)"

definition trunc :: "real \<Rightarrow> int" where
  "trunc r = (if 0 \<le> r then \<lfloor>r\<rfloor> else \<lceil>r\<rceil>)"

definition wrap32 :: "int \<Rightarrow> int" where
  "wrap32 i = (i + 2 ^ 31) mod 2 ^ 32 - 2 ^ 31"

definition INT32_MIN :: int where
  "INT32_MIN = - (2 ^ 31)"

text \<open>
  One entry under \<open>astype(np.int32)\<close>: a wider integer wraps around; a float is cut
  toward zero, and a float with no 32-bit value (out of range, infinite, NaN) becomes the
  smallest 32-bit integer, as numpy does on x86-64.
\<close>

definition to_int32 :: "dtype \<Rightarrow> fval \<Rightarrow> int" where
  "to_int32 src x =
     (case x of
        Fin r \<Rightarrow>
          if is_int_dtype src then wrap32 (trunc r)
          else if INT32_MIN \<le> trunc r \<and> trunc r < 2 ^ 31 then trunc r
          else INT32_MIN
      | _ \<Rightarrow> INT32_MIN)"

text \<open>
  \<open>a.astype(t)\<close> for the two targets the wrapper asks for: \<open>np.int32\<close> converts every
  entry, \<open>np.float32\<close> keeps the (exact) values.
\<close>

definition astype :: "ndarray \<Rightarrow> dtype \<Rightarrow> ndarray" where
  "astype a t =
     (if t = int32
      then a\<lparr>dtype := int32, data := map (\<lambda>x. Fin (of_int (to_int32 (dtype a) x))) (data a)\<rparr>
      else a\<lparr>dtype := t\<rparr>)"

definition expand_dims :: "ndarray \<Rightarrow> ndarray" where
  \<comment> \<open>\<open>np.expand_dims(a, axis=0)\<close>\<close>
  "expand_dims a = a\<lparr>shape := 1 # shape a\<rparr>"

datatype space =
    Box (box_shape: "nat list") (low: "fval list") (high: "fval list")
  | Discrete (categories: int)
  | OtherSpace string

datatype gym_action = ActNone | ActInt int | ActArray ndarray

datatype fmt_arg = ArgStr string | ArgInt int | ArgShape "int list" | ArgSpace space

text \<open>A message is the template of the source with the arguments it is filled with.\<close>

datatype message = Fmt string "fmt_arg list"

datatype error =
    AssertionError
  | UnityActionException message
  | UnityObservationException message
  | ValueError
  | IndexError
  | TypeError
  | AttributeError

subsection \<open>Broadcasting\<close>

fun broadcast_shape_rev :: "nat list \<Rightarrow> nat list \<Rightarrow> nat list option" where
  "broadcast_shape_rev [] ys = Some ys"
| "broadcast_shape_rev xs [] = Some xs"
| "broadcast_shape_rev (x # xs) (y # ys) =
     (if x = y \<or> y = 1 then map_option ((#) x) (broadcast_shape_rev xs ys)
      else if x = 1 then map_option ((#) y) (broadcast_shape_rev xs ys)
      else None)"

definition broadcast_shapes :: "nat list \<Rightarrow> nat list \<Rightarrow> nat list option" where
  "broadcast_shapes s t = map_option rev (broadcast_shape_rev (rev s) (rev t))"

definition pad_shape :: "nat \<Rightarrow> nat list \<Rightarrow> nat list" where
  "pad_shape k s = replicate (k - length s) 1 @ s"

fun broadcast_data :: "nat list \<Rightarrow> nat list \<Rightarrow> 'a list \<Rightarrow> 'a list" where
  "broadcast_data (a # s) (b # t) d =
     (if a = b
      then concat (map (\<lambda>i. broadcast_data s t (take (prod_list s) (drop (i * prod_list s) d))) [0..<a])
      else concat (replicate b (broadcast_data s t d)))"
| "broadcast_data _ _ d = d"

text \<open>
  An elementwise binary operation of numpy. Operands of one shape are combined entry by
  entry; operands of different shapes are broadcast, and raise ValueError when their
  shapes do not fit.
\<close>

definition np_binop :: "(fval \<Rightarrow> fval \<Rightarrow> fval) \<Rightarrow> ndarray \<Rightarrow> ndarray \<Rightarrow> error + ndarray" where
  "np_binop f a b =
     (if shape a = shape b
      then Inr \<lparr>shape = shape a, dtype = result_type (dtype a) (dtype b),
                data = map2 f (data a) (data b)\<rparr>
      else (case broadcast_shapes (shape a) (shape b) of
              None \<Rightarrow> Inl ValueError
            | Some t \<Rightarrow>
                Inr \<lparr>shape = t, dtype = result_type (dtype a) (dtype b),
                     data = map2 f (broadcast_data (pad_shape (length t) (shape a)) t (data a))
                                   (broadcast_data (pad_shape (length t) (shape b)) t (data b))\<rparr>))"

definition np_divide :: "ndarray \<Rightarrow> ndarray \<Rightarrow> error + ndarray" where
  "np_divide = np_binop fdiv"

definition np_multiply :: "ndarray \<Rightarrow> ndarray \<Rightarrow> error + ndarray" where
  "np_multiply = np_binop fmul"

text \<open>\<open>a[0]\<close>: the first slice along the leading axis.\<close>

definition index0 :: "ndarray \<Rightarrow> error + ndarray" where
  "index0 a =
     (case shape a of
        [] \<Rightarrow> Inl IndexError
      | d # rest \<Rightarrow>
          if d = 0 then Inl IndexError
          else Inr (a\<lparr>shape := rest, data := take (prod_list rest) (data a)\<rparr>))"

text \<open>\<open>int(x)\<close> of an array: defined for an array of exactly one entry.\<close>

definition py_int :: "ndarray \<Rightarrow> error + int" where
  "py_int a =
     (case data a of
        [Fin r] \<Rightarrow> Inr (trunc r)
      | _ \<Rightarrow> Inl TypeError)"

section \<open>The types of \<open>mlagents_envs.base_env\<close>\<close>

datatype ActionType = DISCRETE | CONTINUOUS

text \<open>
  The value the constructor passes as \<open>action_shape\<close>: the number \<open>np.prod(shape)\<close>
  for a Box, the 1-tuple \<open>(n,)\<close> for a Discrete space.
\<close>

datatype action_shape = ShapeInt int | ShapeTuple1 int

text \<open>
  Modelled from the spec: the class \<open>BehaviorSpec\<close> of \<open>mlagents_envs.base_env\<close>,
  which is not among the sources. Its three fields are the keyword arguments of the
  constructor call in the wrapper.
\<close>

record BehaviorSpec =
  observation_shapes :: "nat list list"
  action_type :: ActionType
  action_shape :: action_shape

text \<open>
  Modelled from the spec: \<open>BehaviorSpec.is_action_continuous\<close>, the action type of
  the descriptor being continuous.
\<close>

definition is_action_continuous :: "BehaviorSpec \<Rightarrow> bool" where
  "is_action_continuous spec = (action_type spec = CONTINUOUS)"

text \<open>
  Modelled from the spec: \<open>BehaviorSpec.action_size\<close>. The spec gives it as the
  size of the continuous vector, or the count of discrete categories: "if it is a discrete
  space of N categories, set action type = discrete, action size = N".
\<close>

definition action_size :: "BehaviorSpec \<Rightarrow> int" where
  "action_size spec = (case action_shape spec of ShapeInt k \<Rightarrow> k | ShapeTuple1 k \<Rightarrow> k)"

text \<open>
  Modelled from the spec: the batches \<open>DecisionSteps\<close> and \<open>TerminalSteps\<close> of
  \<open>mlagents_envs.base_env\<close>. Both carry, per agent, an observation (one array per
  observation shape, with the agents along the leading axis), a reward and an agent
  identifier; a decision batch adds the optional action mask, a terminal batch the
  interrupted flag.
\<close>

record steps =
  obs :: "ndarray list"
  reward :: "fval list"
  agent_id :: "int list"

record DecisionSteps = steps +
  action_mask :: "bool list list option"

record TerminalSteps = steps +
  interrupted :: "bool list"

text \<open>Modelled from the spec: \<open>len\<close> of a batch, the number of agents in it.\<close>

definition len_steps :: "'a steps_scheme \<Rightarrow> nat" where
  "len_steps b = length (agent_id b)"

text \<open>
  Modelled from the spec: \<open>DecisionSteps.empty\<close> and \<open>TerminalSteps.empty\<close>; "an
  empty batch has zero agents in all fields".
\<close>

definition empty_obs :: "BehaviorSpec \<Rightarrow> ndarray list" where
  "empty_obs spec =
     map (\<lambda>sh. \<lparr>shape = 0 # sh, dtype = float32, data = []\<rparr>) (observation_shapes spec)"

definition DecisionSteps_empty :: "BehaviorSpec \<Rightarrow> DecisionSteps" where
  "DecisionSteps_empty spec =
     \<lparr>obs = empty_obs spec, reward = [], agent_id = [], action_mask = None\<rparr>"

definition TerminalSteps_empty :: "BehaviorSpec \<Rightarrow> TerminalSteps" where
  "TerminalSteps_empty spec =
     \<lparr>obs = empty_obs spec, reward = [], agent_id = [], interrupted = []\<rparr>"

section \<open>The gym environment\<close>

text \<open>
  The wrapped environment is an object outside the repository. It is modelled by its two
  spaces, its behaviour as two functions on a hidden state \<open>'s\<close>, that state, and the
  list of the calls it has received so far (kept only to state what the wrapper passes
  to it).
\<close>

datatype env_call = CallReset | CallStep gym_action | CallClose

type_synonym info = "string \<Rightarrow> bool option"

record 's gym_env =
  action_space :: space
  observation_space :: space
  env_reset :: "'s \<Rightarrow> ndarray \<times> 's"
  env_step :: "gym_action \<Rightarrow> 's \<Rightarrow> (ndarray \<times> fval \<times> bool \<times> info) \<times> 's"
  env_state :: 's
  calls :: "env_call list"

definition gym_reset :: "'s gym_env \<Rightarrow> ndarray \<times> 's gym_env" where
  "gym_reset E =
     (case env_reset E (env_state E) of
        (ob, s') \<Rightarrow> (ob, E\<lparr>env_state := s', calls := calls E @ [CallReset]\<rparr>))"

definition gym_step ::
  "'s gym_env \<Rightarrow> gym_action \<Rightarrow> (ndarray \<times> fval \<times> bool \<times> info) \<times> 's gym_env" where
  "gym_step E a =
     (case env_step E a (env_state E) of
        (r, s') \<Rightarrow> (r, E\<lparr>env_state := s', calls := calls E @ [CallStep a]\<rparr>))"

definition gym_close :: "'s gym_env \<Rightarrow> 's gym_env" where
  "gym_close E = E\<lparr>calls := calls E @ [CallClose]\<rparr>"

section \<open>GymToUnityWrapper\<close>

definition DEFAULT_BEHAVIOR_NAME :: string where
  "DEFAULT_BEHAVIOR_NAME = ''gym_behavior_name''"

definition AGENT_ID :: int where
  "AGENT_ID = 1"

text \<open>
  The attributes of the object. \<open>act_ratio\<close> is assigned for a Box action space only,
  hence the option.
\<close>

record 's GymToUnityWrapper =
  gym_env :: "'s gym_env"
  first_message :: bool
  behavior_name :: string
  act_ratio :: "ndarray option"
  obs_ratio :: ndarray
  behavior_specs :: BehaviorSpec
  g_action :: gym_action
  current_steps :: "DecisionSteps \<times> TerminalSteps"

text \<open>
  \<open>np.maximum(high, -low)\<close> followed by \<open>ratio[ratio > 1e38] = 1\<close>, on the bounds
  of a Box (both of the shape of the Box).
\<close>

definition clamp_ratio :: "fval \<Rightarrow> fval" where
  "clamp_ratio r = (if fgt r (Fin (10 ^ 38)) then Fin 1 else r)"

definition normalization_ratio :: "nat list \<Rightarrow> fval list \<Rightarrow> fval list \<Rightarrow> ndarray" where
  "normalization_ratio sh lo hi =
     \<lparr>shape = sh, dtype = float32,
      data = map clamp_ratio (map2 fmax hi (map fneg lo))\<rparr>"

text \<open>
  \<open>__init__\<close>. The action space is inspected first, the observation space second; a
  failed construction leaves no object. Over a Box of shape \<open>()\<close> \<open>np.maximum\<close>
  returns a scalar, and the assignment \<open>ratio[ratio > 1e38] = 1\<close> to it raises
  TypeError.
\<close>

definition init :: "'s gym_env \<Rightarrow> string option \<Rightarrow> error + 's GymToUnityWrapper" where
  "init env name =
     (let bname = (case name of None \<Rightarrow> DEFAULT_BEHAVIOR_NAME | Some nm \<Rightarrow> nm) in
      case (case action_space env of
              Box sh lo hi \<Rightarrow>
                if sh = [] then Inl TypeError
                else Inr (CONTINUOUS, ShapeInt (prod_list (map int sh)),
                          Some (normalization_ratio sh lo hi))
            | Discrete k \<Rightarrow> Inr (DISCRETE, ShapeTuple1 k, None)
            | OtherSpace d \<Rightarrow>
                Inl (UnityActionException
                       (Fmt ''Unknown action type {0}'' [ArgSpace (action_space env)]))) of
        Inl e \<Rightarrow> Inl e
      | Inr (atype, ashape, aratio) \<Rightarrow>
          (case observation_space env of
             Box sh lo hi \<Rightarrow>
               if sh = [] then Inl TypeError
               else
                 (let spec = \<lparr>observation_shapes = [sh], action_type = atype,
                              action_shape = ashape\<rparr>
                  in Inr \<lparr>gym_env = env, first_message = True, behavior_name = bname,
                          act_ratio = aratio, obs_ratio = normalization_ratio sh lo hi,
                          behavior_specs = spec, g_action = ActNone,
                          current_steps = (DecisionSteps_empty spec, TerminalSteps_empty spec)\<rparr>)
           | _ \<Rightarrow>
               Inl (UnityObservationException
                      (Fmt ''Unknown observation type {0}'' [ArgSpace (observation_space env)]))))"

definition behavior_specs_property :: "'s GymToUnityWrapper \<Rightarrow> (string \<rightharpoonup> BehaviorSpec)" where
  "behavior_specs_property w = [behavior_name w \<mapsto> behavior_specs w]"

text \<open>
  A method returns the exception it raised, if any, with the object as the call left it:
  an exception does not undo the assignments made before it.
\<close>

type_synonym 's outcome = "error option \<times> 's GymToUnityWrapper"

definition reset :: "'s GymToUnityWrapper \<Rightarrow> 's outcome" where
  "reset w =
     (case gym_reset (gym_env w) of
        (ob, env') \<Rightarrow>
          (let w1 = w\<lparr>first_message := False, gym_env := env'\<rparr> in
           case np_divide ob (obs_ratio w1) of
             Inl e \<Rightarrow> (Some e, w1)
           | Inr q \<Rightarrow>
               (None, w1\<lparr>current_steps :=
                  (\<lparr>obs = [expand_dims q], reward = [Fin 0], agent_id = [AGENT_ID],
                    action_mask = None\<rparr>,
                   TerminalSteps_empty (behavior_specs w1))\<rparr>)))"

definition truncated :: "info \<Rightarrow> bool" where
  \<comment> \<open>\<open>info.get("TimeLimit.truncated", False)\<close>\<close>
  "truncated nfo = (case nfo ''TimeLimit.truncated'' of None \<Rightarrow> False | Some b \<Rightarrow> b)"

definition step :: "'s GymToUnityWrapper \<Rightarrow> 's outcome" where
  "step w =
     (if first_message w then reset w
      else
        (case gym_step (gym_env w) (g_action w) of
           ((ob, rew, dn, nfo), env') \<Rightarrow>
             (let w1 = w\<lparr>gym_env := env'\<rparr> in
              if \<not> dn then
                (case np_divide ob (obs_ratio w1) of
                   Inl e \<Rightarrow> (Some e, w1)
                 | Inr q \<Rightarrow>
                     (None, w1\<lparr>current_steps :=
                        (\<lparr>obs = [expand_dims q], reward = [rew], agent_id = [AGENT_ID],
                          action_mask = None\<rparr>,
                         TerminalSteps_empty (behavior_specs w1))\<rparr>))
              else
                (let w2 = w1\<lparr>first_message := True\<rparr> in
                 case np_divide ob (obs_ratio w2) of
                   Inl e \<Rightarrow> (Some e, w2)
                 | Inr q \<Rightarrow>
                     (None, w2\<lparr>current_steps :=
                        (DecisionSteps_empty (behavior_specs w2),
                         \<lparr>obs = [expand_dims q], reward = [rew], agent_id = [AGENT_ID],
                          interrupted = [truncated nfo]\<rparr>)\<rparr>)))))"

definition close :: "'s GymToUnityWrapper \<Rightarrow> 's outcome" where
  "close w = (None, w\<lparr>gym_env := gym_close (gym_env w)\<rparr>)"

text \<open>
  The last two steps of both setters: the stored action is \<open>int(x)\<close> of one entry for a
  Discrete space and \<open>row / act_ratio\<close> for a Box. \<open>entry\<close> is the indexing the
  source applies to the (cast) action to reach the integer, \<open>row\<close> the array it
  divides.
\<close>

definition store_action ::
  "'s GymToUnityWrapper \<Rightarrow> error + ndarray \<Rightarrow> error + ndarray \<Rightarrow> 's outcome" where
  "store_action w entry row =
     (case action_space (gym_env w) of
        Discrete k \<Rightarrow>
          (case entry of
             Inl e \<Rightarrow> (Some e, w)
           | Inr x \<Rightarrow>
               (case py_int x of
                  Inl e \<Rightarrow> (Some e, w)
                | Inr i \<Rightarrow> (None, w\<lparr>g_action := ActInt i\<rparr>)))
      | Box sh lo hi \<Rightarrow>
          (case row of
             Inl e \<Rightarrow> (Some e, w)
           | Inr a \<Rightarrow>
               (case act_ratio w of
                  None \<Rightarrow> (Some AttributeError, w)
                | Some r \<Rightarrow>
                    (case np_divide a r of
                       Inl e \<Rightarrow> (Some e, w)
                     | Inr q \<Rightarrow> (None, w\<lparr>g_action := ActArray q\<rparr>))))
      | OtherSpace d \<Rightarrow>
          (Some (UnityActionException
                   (Fmt ''Unknown action type {0}'' [ArgSpace (action_space (gym_env w))])), w))"

definition expected_type :: "BehaviorSpec \<Rightarrow> dtype" where
  "expected_type spec = (if is_action_continuous spec then float32 else int32)"

definition coerce :: "ndarray \<Rightarrow> dtype \<Rightarrow> ndarray" where
  \<comment> \<open>\<open>if action.dtype != expected_type: action = action.astype(expected_type)\<close>\<close>
  "coerce action t = (if dtype action \<noteq> t then astype action t else action)"

definition set_actions :: "'s GymToUnityWrapper \<Rightarrow> string \<Rightarrow> ndarray \<Rightarrow> 's outcome" where
  "set_actions w bname action =
     (if bname \<noteq> behavior_name w then (Some AssertionError, w)
      else
        (let spec = behavior_specs w;
             n_agents = len_steps (fst (current_steps w))
         in if n_agents = 0 then (None, w)
            else
              (let expected_shape = [int n_agents, action_size spec] in
               if map int (shape action) \<noteq> expected_shape
               then (Some (UnityActionException
                       (Fmt ''The behavior {0} needs an input of dimension {1} but received input of dimension {2}''
                          [ArgStr bname, ArgShape expected_shape,
                           ArgShape (map int (shape action))])), w)
               else
                 (let action' = coerce action (expected_type spec) in
                  store_action w
                    (case index0 action' of Inl e \<Rightarrow> Inl e | Inr r \<Rightarrow> index0 r)
                    (index0 action')))))"

text \<open>
  In \<open>set_action_for_agent\<close> the message is an f-string, so its four fields are the
  literals 0 to 3 and \<open>format\<close> finds nothing to fill in; the arguments are kept as
  the call passes them.
\<close>

definition set_action_for_agent ::
  "'s GymToUnityWrapper \<Rightarrow> string \<Rightarrow> int \<Rightarrow> ndarray \<Rightarrow> 's outcome" where
  "set_action_for_agent w bname aid action =
     (if bname \<noteq> behavior_name w then (Some AssertionError, w)
      else if aid \<noteq> AGENT_ID then (Some AssertionError, w)
      else
        (let spec = behavior_specs w;
             expected_shape = [action_size spec]
         in if map int (shape action) \<noteq> expected_shape
            then (Some (UnityActionException
                    (Fmt ''The Agent 0 with BehaviorName 1 needs an input of dimension 2 but received input of dimension 3''
                       [ArgInt aid, ArgStr bname, ArgShape expected_shape,
                        ArgShape (map int (shape action))])), w)
            else
              (let action' = coerce action (expected_type spec) in
               store_action w (index0 action') (Inr action'))))"

definition get_steps ::
  "'s GymToUnityWrapper \<Rightarrow> string \<Rightarrow> error + DecisionSteps \<times> TerminalSteps" where
  "get_steps w bname =
     (if bname \<noteq> behavior_name w then Inl AssertionError else Inr (current_steps w))"

text \<open>A sequence of calls of \<open>step\<close> and \<open>reset\<close>; it ends at the first exception.\<close>

datatype call = Step | Reset

definition do_call :: "call \<Rightarrow> 's GymToUnityWrapper \<Rightarrow> 's outcome" where
  "do_call c w = (case c of Step \<Rightarrow> step w | Reset \<Rightarrow> reset w)"

fun run :: "'s GymToUnityWrapper \<Rightarrow> call list \<Rightarrow> 's outcome" where
  "run w [] = (None, w)"
| "run w (c # cs) =
     (case do_call c w of
        (None, w') \<Rightarrow> run w' cs
      | (Some e, w') \<Rightarrow> (Some e, w'))"

section \<open>Properties to be proved\<close>

text \<open>
  The environment keeps to its observation space: every observation it returns has the
  shape \<open>sh\<close>.
\<close>

definition env_conforms :: "'s gym_env \<Rightarrow> nat list \<Rightarrow> bool" where
  "env_conforms E sh =
     ((\<forall>s. shape (fst (env_reset E s)) = sh) \<and>
      (\<forall>a s. shape (fst (fst (env_step E a s))) = sh))"

text \<open>Exactly one of: one agent awaits a decision, one agent is terminal.\<close>

definition exactly_one_batch :: "DecisionSteps \<times> TerminalSteps \<Rightarrow> bool" where
  "exactly_one_batch p =
     ((len_steps (fst p) = 1 \<and> len_steps (snd p) = 0) \<noteq>
      (len_steps (fst p) = 0 \<and> len_steps (snd p) = 1))"

text \<open>The done flag the environment answers to the next \<open>step\<close> of a running adapter.\<close>

definition step_done :: "'s GymToUnityWrapper \<Rightarrow> bool" where
  "step_done w = fst (snd (snd (fst (gym_step (gym_env w) (g_action w)))))"

text \<open>
  What construction establishes between the action space, the Behavior Spec and the
  action ratio; no method assigns any of the three afterwards.
\<close>

definition consistent :: "'s GymToUnityWrapper \<Rightarrow> bool" where
  "consistent w =
     (case action_space (gym_env w) of
        Box sh lo hi \<Rightarrow>
          act_ratio w = Some (normalization_ratio sh lo hi) \<and>
          action_type (behavior_specs w) = CONTINUOUS \<and>
          action_shape (behavior_specs w) = ShapeInt (prod_list (map int sh))
      | Discrete k \<Rightarrow>
          act_ratio w = None \<and>
          action_type (behavior_specs w) = DISCRETE \<and>
          action_shape (behavior_specs w) = ShapeTuple1 k
      | OtherSpace d \<Rightarrow> False)"

text \<open>Entry \<open>i\<close> of \<open>np.maximum(high, -low)\<close> is not above the threshold, so it is kept.\<close>

definition unclamped :: "fval list \<Rightarrow> fval list \<Rightarrow> nat \<Rightarrow> bool" where
  "unclamped lo hi i = (\<not> fgt (fmax (hi ! i) (fneg (lo ! i))) (Fin (10 ^ 38)))"

text \<open>Normalising an observation, then scaling it by the same ratio.\<close>

definition round_trip :: "ndarray \<Rightarrow> ndarray \<Rightarrow> error + ndarray" where
  "round_trip ob ratio =
     (case np_divide ob ratio of Inl e \<Rightarrow> Inl e | Inr q \<Rightarrow> np_multiply q ratio)"

text \<open>
  The observation a batch holds for the one agent: the raw observation divided entry by
  entry by the ratio, under a new leading axis of length 1.
\<close>

definition normalized :: "ndarray \<Rightarrow> ndarray \<Rightarrow> ndarray" where
  "normalized ob ratio =
     \<lparr>shape = 1 # shape ob, dtype = result_type (dtype ob) (dtype ratio),
      data = map2 fdiv (data ob) (data ratio)\<rparr>"

subsection \<open>Concrete environments\<close>

definition vec :: "dtype \<Rightarrow> real list \<Rightarrow> ndarray" where
  "vec t xs = \<lparr>shape = [length xs], dtype = t, data = map Fin xs\<rparr>"

text \<open>
  An environment with actions in \<open>[-2, 2]\<close> and observations in \<open>[0, 10]\<close>, both of
  size 1. It starts at observation 5, counts its steps and ends the episode at the second.
\<close>

definition pendulum_env :: "nat gym_env" where
  "pendulum_env =
     \<lparr>action_space = Box [1] [Fin (- 2)] [Fin 2],
      observation_space = Box [1] [Fin 0] [Fin 10],
      env_reset = (\<lambda>s. (vec float32 [5], 0)),
      env_step = (\<lambda>a s. ((vec float32 [real (Suc s)], Fin 1, 2 \<le> Suc s, Map.empty), Suc s)),
      env_state = 0, calls = []\<rparr>"

text \<open>The same environment with four discrete actions.\<close>

definition discrete_env :: "nat gym_env" where
  "discrete_env = pendulum_env\<lparr>action_space := Discrete 4\<rparr>"

text \<open>The same environment with a two-by-three Box of actions.\<close>

definition grid_env :: "nat gym_env" where
  "grid_env =
     pendulum_env\<lparr>action_space := Box [2, 3] (replicate 6 (Fin (- 1))) (replicate 6 (Fin 1))\<rparr>"

text \<open>The same environment with an observation space that holds the point 0 only.\<close>

definition point_env :: "nat gym_env" where
  "point_env =
     pendulum_env\<lparr>observation_space := Box [1] [Fin 0] [Fin 0],
                  env_reset := (\<lambda>s. (vec float32 [0], 0))\<rparr>"

definition mk :: "nat gym_env \<Rightarrow> nat GymToUnityWrapper" where
  \<comment> \<open>the adapter built over one of the environments above\<close>
  "mk E = (case init E None of Inr w \<Rightarrow> w)"

text \<open>The adapter after its first reset, and after the step that ends the episode.\<close>

definition running_w :: "nat GymToUnityWrapper" where
  "running_w = snd (reset (mk pendulum_env))"

definition terminal_w :: "nat GymToUnityWrapper" where
  "terminal_w = snd (run (mk pendulum_env) [Reset, Step, Step])"

section \<open>Basic facts\<close>

lemma np_divide_same_shape:
  "shape a = shape b \<Longrightarrow>
   np_divide a b = Inr \<lparr>shape = shape a, dtype = result_type (dtype a) (dtype b),
                        data = map2 fdiv (data a) (data b)\<rparr>"
  by (simp add: np_divide_def np_binop_def)

lemma np_multiply_same_shape:
  "shape a = shape b \<Longrightarrow>
   np_multiply a b = Inr \<lparr>shape = shape a, dtype = result_type (dtype a) (dtype b),
                          data = map2 fmul (data a) (data b)\<rparr>"
  by (simp add: np_multiply_def np_binop_def)

lemma broadcast_shape_rev_same: "broadcast_shape_rev s s = Some s"
  by (induction s) auto

lemma broadcast_shapes_same: "broadcast_shapes s s = Some s"
  by (simp add: broadcast_shapes_def broadcast_shape_rev_same)

lemma pad_shape_same: "pad_shape (length s) s = s"
  by (simp add: pad_shape_def)

lemma concat_chunks:
  "length d = a * m \<Longrightarrow> concat (map (\<lambda>i. take m (drop (i * m) d)) [0..<a]) = d"
proof (induction a arbitrary: d)
  case 0
  then show ?case by simp
next
  case (Suc a)
  have "[0..<Suc a] = 0 # map Suc [0..<a]"
    by (simp add: upt_conv_Cons map_Suc_upt del: upt_Suc)
  then have "concat (map (\<lambda>i. take m (drop (i * m) d)) [0..<Suc a]) =
        take m d @ concat (map (\<lambda>i. take m (drop (i * m) (drop m d))) [0..<a])"
    by (simp add: comp_def add.commute del: upt_Suc)
  also have "concat (map (\<lambda>i. take m (drop (i * m) (drop m d))) [0..<a]) = drop m d"
    using Suc.prems by (intro Suc.IH) simp
  finally show ?case
    by simp
qed

lemma broadcast_data_same:
  "length d = prod_list s \<Longrightarrow> broadcast_data s s d = d"
proof (induction s arbitrary: d)
  case Nil
  then show ?case by simp
next
  case (Cons a s)
  let ?m = "prod_list s"
  have "map (\<lambda>i. broadcast_data s s (take ?m (drop (i * ?m) d))) [0..<a] =
        map (\<lambda>i. take ?m (drop (i * ?m) d)) [0..<a]"
  proof (rule map_cong [OF refl])
    fix i assume "i \<in> set [0..<a]"
    then have "Suc i \<le> a" by simp
    then have "Suc i * ?m \<le> a * ?m"
      by (rule mult_le_mono1)
    with Cons.prems have "length (take ?m (drop (i * ?m) d)) = ?m"
      by simp
    then show "broadcast_data s s (take ?m (drop (i * ?m) d)) = take ?m (drop (i * ?m) d)"
      by (rule Cons.IH)
  qed
  then have "broadcast_data (a # s) (a # s) d =
             concat (map (\<lambda>i. take ?m (drop (i * ?m) d)) [0..<a])"
    by (simp only: broadcast_data.simps refl if_True)
  also have "\<dots> = d"
    using Cons.prems by (intro concat_chunks) simp
  finally show ?case .
qed

text \<open>
  For arrays of one shape, broadcasting changes nothing: the first branch of
  \<open>np_binop\<close> is the second one at equal shapes.
\<close>

lemma np_binop_same_shape_broadcast:
  assumes "shape a = shape b"
    and "length (data a) = prod_list (shape a)" and "length (data b) = prod_list (shape b)"
  shows "(case broadcast_shapes (shape a) (shape b) of
            None \<Rightarrow> Inl ValueError
          | Some t \<Rightarrow>
              Inr \<lparr>shape = t, dtype = result_type (dtype a) (dtype b),
                   data = map2 f (broadcast_data (pad_shape (length t) (shape a)) t (data a))
                                 (broadcast_data (pad_shape (length t) (shape b)) t (data b))\<rparr>) =
         np_binop f a b"
  using assms
  by (simp add: np_binop_def broadcast_shapes_same pad_shape_same broadcast_data_same)

lemma len_steps_empty:
  "len_steps (DecisionSteps_empty spec) = 0" "len_steps (TerminalSteps_empty spec) = 0"
  by (simp_all add: len_steps_def DecisionSteps_empty_def TerminalSteps_empty_def)

text \<open>What \<open>reset\<close> does when the observation has the shape of the ratio.\<close>

lemma reset_conforming:
  assumes "env_reset (gym_env w) (env_state (gym_env w)) = (ob, s')"
    and "shape ob = shape (obs_ratio w)"
  shows "reset w =
    (None, w\<lparr>first_message := False,
              gym_env := (gym_env w)\<lparr>env_state := s', calls := calls (gym_env w) @ [CallReset]\<rparr>,
              current_steps :=
                (\<lparr>obs = [normalized ob (obs_ratio w)], reward = [Fin 0], agent_id = [AGENT_ID],
                  action_mask = None\<rparr>,
                 TerminalSteps_empty (behavior_specs w))\<rparr>)"
  using assms
  by (simp add: reset_def gym_reset_def np_divide_same_shape expand_dims_def normalized_def)

text \<open>What \<open>step\<close> does in the middle of an episode, in both of its branches.\<close>

lemma step_running_conforming:
  assumes "\<not> first_message w"
    and "env_step (gym_env w) (g_action w) (env_state (gym_env w)) = ((ob, rew, dn, nfo), s')"
    and "shape ob = shape (obs_ratio w)"
  shows "step w =
    (None, w\<lparr>gym_env := (gym_env w)\<lparr>env_state := s',
                                      calls := calls (gym_env w) @ [CallStep (g_action w)]\<rparr>,
              first_message := dn,
              current_steps :=
                (if dn then
                  (DecisionSteps_empty (behavior_specs w),
                   \<lparr>obs = [normalized ob (obs_ratio w)], reward = [rew], agent_id = [AGENT_ID],
                    interrupted = [truncated nfo]\<rparr>)
                 else
                  (\<lparr>obs = [normalized ob (obs_ratio w)], reward = [rew], agent_id = [AGENT_ID],
                    action_mask = None\<rparr>,
                   TerminalSteps_empty (behavior_specs w)))\<rparr>)"
  using assms
  by (simp add: step_def gym_step_def np_divide_same_shape expand_dims_def normalized_def)

lemma init_Inr:
  assumes "init E nm = Inr w"
  shows "gym_env w = E" "first_message w" "g_action w = ActNone"
    "current_steps w = (DecisionSteps_empty (behavior_specs w), TerminalSteps_empty (behavior_specs w))"
    "behavior_name w = (case nm of None \<Rightarrow> DEFAULT_BEHAVIOR_NAME | Some x \<Rightarrow> x)"
    "\<exists>sh lo hi. observation_space E = Box sh lo hi \<and> obs_ratio w = normalization_ratio sh lo hi"
    "consistent w"
  using assms
  by (auto simp: init_def Let_def consistent_def
           split: space.splits sum.splits prod.splits if_splits)

lemma reset_frame:
  "g_action (snd (reset w)) = g_action w"
  "\<not> first_message (snd (reset w))"
  "calls (gym_env (snd (reset w))) = calls (gym_env w) @ [CallReset]"
  by (simp_all add: reset_def gym_reset_def Let_def split: prod.splits sum.splits)

lemma step_running_calls:
  "\<not> first_message w \<Longrightarrow>
   calls (gym_env (snd (step w))) = calls (gym_env w) @ [CallStep (g_action w)]"
  by (auto simp: step_def gym_step_def Let_def split: prod.splits sum.splits)

lemma env_conforms_update:
  "env_conforms (E\<lparr>env_state := s, calls := c\<rparr>) sh = env_conforms E sh"
  by (simp add: env_conforms_def)

subsection \<open>The concrete adapters\<close>

lemma init_pendulum: "init pendulum_env None = Inr (mk pendulum_env)"
  by (simp add: mk_def init_def pendulum_env_def Let_def)

lemma init_discrete: "init discrete_env None = Inr (mk discrete_env)"
  by (simp add: mk_def init_def discrete_env_def pendulum_env_def Let_def)

lemma init_grid: "init grid_env None = Inr (mk grid_env)"
  by (simp add: mk_def init_def grid_env_def pendulum_env_def Let_def)

lemma conforms_pendulum:
  "env_conforms pendulum_env (box_shape (observation_space pendulum_env))"
  by (simp add: env_conforms_def pendulum_env_def vec_def)

lemma mk_pendulum:
  "mk pendulum_env =
     \<lparr>gym_env = pendulum_env, first_message = True, behavior_name = ''gym_behavior_name'',
      act_ratio = Some \<lparr>shape = [1], dtype = float32, data = [Fin 2]\<rparr>,
      obs_ratio = \<lparr>shape = [1], dtype = float32, data = [Fin 10]\<rparr>,
      behavior_specs = \<lparr>observation_shapes = [[1]], action_type = CONTINUOUS,
                        action_shape = ShapeInt 1\<rparr>,
      g_action = ActNone,
      current_steps =
        (\<lparr>obs = [\<lparr>shape = [0, 1], dtype = float32, data = []\<rparr>], reward = [], agent_id = [],
          action_mask = None\<rparr>,
         \<lparr>obs = [\<lparr>shape = [0, 1], dtype = float32, data = []\<rparr>], reward = [], agent_id = [],
          interrupted = []\<rparr>)\<rparr>"
  by (simp add: mk_def init_def pendulum_env_def Let_def normalization_ratio_def clamp_ratio_def
        DEFAULT_BEHAVIOR_NAME_def DecisionSteps_empty_def TerminalSteps_empty_def empty_obs_def)

section \<open>The step and reset state machine\<close>

lemma reset_inv:
  assumes "env_conforms (gym_env w) (shape (obs_ratio w))"
  shows "\<exists>w'. reset w = (None, w') \<and> env_conforms (gym_env w') (shape (obs_ratio w')) \<and>
           behavior_name w' = behavior_name w \<and>
           len_steps (fst (current_steps w')) = 1 \<and> len_steps (snd (current_steps w')) = 0"
proof -
  obtain ob s' where r: "env_reset (gym_env w) (env_state (gym_env w)) = (ob, s')"
    by (cases "env_reset (gym_env w) (env_state (gym_env w))")
  have "shape (fst (env_reset (gym_env w) (env_state (gym_env w)))) = shape (obs_ratio w)"
    using assms by (simp add: env_conforms_def)
  with r have sh: "shape ob = shape (obs_ratio w)"
    by simp
  show ?thesis
    using assms
    by (simp add: reset_conforming [OF r sh] env_conforms_update len_steps_def
          TerminalSteps_empty_def)
qed

lemma step_inv:
  assumes "env_conforms (gym_env w) (shape (obs_ratio w))"
  shows "\<exists>w'. step w = (None, w') \<and> env_conforms (gym_env w') (shape (obs_ratio w')) \<and>
           behavior_name w' = behavior_name w \<and> exactly_one_batch (current_steps w')"
proof (cases "first_message w")
  case True
  then have "step w = reset w"
    by (simp add: step_def)
  with reset_inv [OF assms] show ?thesis
    by (auto simp: exactly_one_batch_def)
next
  case False
  obtain ob rew dn nfo s' where
    r: "env_step (gym_env w) (g_action w) (env_state (gym_env w)) = ((ob, rew, dn, nfo), s')"
    by (metis prod.exhaust)
  have "shape (fst (fst (env_step (gym_env w) (g_action w) (env_state (gym_env w))))) =
        shape (obs_ratio w)"
    using assms by (simp add: env_conforms_def)
  with r have sh: "shape ob = shape (obs_ratio w)"
    by simp
  show ?thesis
    using assms
    by (simp add: step_running_conforming [OF False r sh] env_conforms_update
          exactly_one_batch_def len_steps_def TerminalSteps_empty_def DecisionSteps_empty_def)
qed

lemma do_call_inv:
  assumes "env_conforms (gym_env w) (shape (obs_ratio w))"
  shows "\<exists>w'. do_call c w = (None, w') \<and> env_conforms (gym_env w') (shape (obs_ratio w')) \<and>
           behavior_name w' = behavior_name w \<and> exactly_one_batch (current_steps w')"
proof (cases c)
  case Step
  with step_inv [OF assms] show ?thesis
    by (simp add: do_call_def)
next
  case Reset
  with reset_inv [OF assms] show ?thesis
    by (auto simp: do_call_def exactly_one_batch_def)
qed

lemma run_inv:
  assumes "env_conforms (gym_env w) (shape (obs_ratio w))"
    and "exactly_one_batch (current_steps w)"
  shows "\<exists>w'. run w cs = (None, w') \<and> behavior_name w' = behavior_name w \<and>
           exactly_one_batch (current_steps w')"
  using assms
proof (induction cs arbitrary: w)
  case Nil
  then show ?case by simp
next
  case (Cons c cs)
  from do_call_inv [OF Cons.prems(1)] obtain w1 where
    w1: "do_call c w = (None, w1)" "env_conforms (gym_env w1) (shape (obs_ratio w1))"
      "behavior_name w1 = behavior_name w" "exactly_one_batch (current_steps w1)"
    by blast
  from Cons.IH [OF w1(2) w1(4)] w1(1) w1(3) show ?case
    by auto
qed

text \<open>
  Claim C1. Take an adapter as construction leaves it, over an environment whose
  observations have the shape of its observation space. Before any call, \<open>get_steps\<close>
  returns two batches without agents. After every non-empty sequence of \<open>step\<close> and
  \<open>reset\<close> calls (the first of which runs a reset, itself or through a first step), all
  calls return and \<open>get_steps\<close> returns a pair in which exactly one holds: the Decision
  Batch has one agent and the Terminal Batch none, or the Decision Batch has none and the
  Terminal Batch one.
\<close>

theorem current_step_pair_invariant:
  assumes "init E nm = Inr w0"
    and "env_conforms E (box_shape (observation_space E))"
  shows "get_steps w0 (behavior_name w0) = Inr (current_steps w0) \<and>
         len_steps (fst (current_steps w0)) = 0 \<and>
         len_steps (snd (current_steps w0)) = 0 \<and>
         (cs \<noteq> [] \<longrightarrow>
            (\<exists>w. run w0 cs = (None, w) \<and>
                 get_steps w (behavior_name w) = Inr (current_steps w) \<and>
                 exactly_one_batch (current_steps w)))"
proof -
  have before: "len_steps (fst (current_steps w0)) = 0 \<and> len_steps (snd (current_steps w0)) = 0"
    by (simp add: init_Inr(4) [OF assms(1)] len_steps_empty)
  from init_Inr(6) [OF assms(1)] init_Inr(1) [OF assms(1)] assms(2)
  have conf: "env_conforms (gym_env w0) (shape (obs_ratio w0))"
    by (auto simp: normalization_ratio_def)
  have after: "\<exists>w. run w0 cs = (None, w) \<and> get_steps w (behavior_name w) = Inr (current_steps w) \<and>
                 exactly_one_batch (current_steps w)" if "cs \<noteq> []"
  proof -
    from that obtain c cs' where cs: "cs = c # cs'"
      by (cases cs) auto
    from do_call_inv [OF conf] obtain w1 where
      w1: "do_call c w0 = (None, w1)" "env_conforms (gym_env w1) (shape (obs_ratio w1))"
        "exactly_one_batch (current_steps w1)"
      by blast
    from run_inv [OF w1(2) w1(3)] obtain w where
      "run w1 cs' = (None, w)" "exactly_one_batch (current_steps w)"
      by blast
    with w1(1) cs show ?thesis
      by (auto simp: get_steps_def)
  qed
  show ?thesis
    using before after by (simp add: get_steps_def)
qed

theorem current_step_pair_invariant_witness:
  "init pendulum_env None = Inr (mk pendulum_env) \<and>
   env_conforms pendulum_env (box_shape (observation_space pendulum_env)) \<and>
   len_steps (fst (current_steps (mk pendulum_env))) = 0 \<and>
   len_steps (snd (current_steps (mk pendulum_env))) = 0 \<and>
   (\<exists>w. run (mk pendulum_env) [Step, Step, Step, Reset] = (None, w) \<and>
        get_steps w (behavior_name w) = Inr (current_steps w) \<and>
        exactly_one_batch (current_steps w))"
  using current_step_pair_invariant [OF init_pendulum conforms_pendulum,
      of "[Step, Step, Step, Reset]"]
    init_pendulum conforms_pendulum
  by simp

subsection \<open>The concrete adapter while running and at the end of an episode\<close>

lemmas eval_defs = reset_def step_def gym_reset_def gym_step_def np_divide_def np_binop_def
  expand_dims_def vec_def result_type_def TerminalSteps_empty_def DecisionSteps_empty_def
  empty_obs_def AGENT_ID_def truncated_def do_call_def Let_def

lemma running_w_eq:
  "running_w = (mk pendulum_env)
     \<lparr>first_message := False,
      gym_env := pendulum_env\<lparr>calls := [CallReset]\<rparr>,
      current_steps :=
        (\<lparr>obs = [\<lparr>shape = [1, 1], dtype = float32, data = [Fin (1 / 2)]\<rparr>], reward = [Fin 0],
          agent_id = [1], action_mask = None\<rparr>,
         \<lparr>obs = [\<lparr>shape = [0, 1], dtype = float32, data = []\<rparr>], reward = [], agent_id = [],
          interrupted = []\<rparr>)\<rparr>"
  unfolding running_w_def mk_pendulum
  by (simp add: eval_defs pendulum_env_def)

lemma terminal_w_eq:
  "terminal_w = (mk pendulum_env)
     \<lparr>gym_env := pendulum_env\<lparr>env_state := 2,
                               calls := [CallReset, CallStep ActNone, CallStep ActNone]\<rparr>,
      current_steps :=
        (\<lparr>obs = [\<lparr>shape = [0, 1], dtype = float32, data = []\<rparr>], reward = [], agent_id = [],
          action_mask = None\<rparr>,
         \<lparr>obs = [\<lparr>shape = [1, 1], dtype = float32, data = [Fin (1 / 5)]\<rparr>], reward = [Fin 1],
          agent_id = [1], interrupted = [False]\<rparr>)\<rparr>"
  unfolding terminal_w_def mk_pendulum
  by (simp add: eval_defs pendulum_env_def)

text \<open>
  Claim C2. An adapter is fresh right after construction and right after a step to which
  the environment answered done. On a fresh adapter \<open>step\<close> is \<open>reset\<close>: both
  return the same adapter state, the environment included, and the one call the
  environment receives is a reset, not a step with the pending action. When the
  environment's first observation has the shape of the observation ratio, the call
  returns without an exception and leaves one agent in the Decision Batch and none in the
  Terminal Batch.
\<close>

theorem step_fresh_is_reset:
  assumes "init E nm = Inr w \<or> (\<not> first_message w0 \<and> step_done w0 \<and> w = snd (step w0))"
    and "shape (fst (env_reset (gym_env w) (env_state (gym_env w)))) = shape (obs_ratio w)"
  shows "first_message w \<and> step w = reset w \<and> fst (step w) = None \<and>
         len_steps (fst (current_steps (snd (step w)))) = 1 \<and>
         len_steps (snd (current_steps (snd (step w)))) = 0 \<and>
         calls (gym_env (snd (step w))) = calls (gym_env w) @ [CallReset]"
proof -
  have fresh: "first_message w"
    using assms(1)
  proof
    assume "init E nm = Inr w"
    then show ?thesis by (rule init_Inr(2))
  next
    assume h: "\<not> first_message w0 \<and> step_done w0 \<and> w = snd (step w0)"
    then show ?thesis
      by (simp add: step_def step_done_def Let_def split: prod.splits sum.splits)
  qed
  then have eq: "step w = reset w"
    by (simp add: step_def)
  obtain ob s' where r: "env_reset (gym_env w) (env_state (gym_env w)) = (ob, s')"
    by (cases "env_reset (gym_env w) (env_state (gym_env w))")
  with assms(2) have sh: "shape ob = shape (obs_ratio w)"
    by simp
  show ?thesis
    using fresh eq
    by (simp add: reset_conforming [OF r sh] len_steps_def TerminalSteps_empty_def)
qed

lemma before_terminal:
  "\<not> first_message (snd (run (mk pendulum_env) [Reset, Step]))"
  "step_done (snd (run (mk pendulum_env) [Reset, Step]))"
  "terminal_w = snd (step (snd (run (mk pendulum_env) [Reset, Step])))"
  unfolding terminal_w_def mk_pendulum
  by (simp_all add: eval_defs step_done_def pendulum_env_def)

theorem step_fresh_is_reset_witness:
  "init pendulum_env None = Inr (mk pendulum_env) \<and>
   step (mk pendulum_env) = reset (mk pendulum_env) \<and>
   \<not> first_message (snd (run (mk pendulum_env) [Reset, Step])) \<and>
   step_done (snd (run (mk pendulum_env) [Reset, Step])) \<and>
   terminal_w = snd (step (snd (run (mk pendulum_env) [Reset, Step]))) \<and>
   step terminal_w = reset terminal_w \<and> fst (step terminal_w) = None \<and>
   len_steps (fst (current_steps (snd (step terminal_w)))) = 1 \<and>
   calls (gym_env (snd (step terminal_w))) =
     [CallReset, CallStep ActNone, CallStep ActNone, CallReset]"
proof -
  have a: "shape (fst (env_reset (gym_env (mk pendulum_env)) (env_state (gym_env (mk pendulum_env))))) =
           shape (obs_ratio (mk pendulum_env))"
    by (simp add: mk_pendulum) (simp add: pendulum_env_def vec_def)
  have b: "shape (fst (env_reset (gym_env terminal_w) (env_state (gym_env terminal_w)))) =
           shape (obs_ratio terminal_w)"
    by (simp add: terminal_w_eq mk_pendulum) (simp add: pendulum_env_def vec_def)
  have c: "calls (gym_env terminal_w) = [CallReset, CallStep ActNone, CallStep ActNone]"
    by (simp add: terminal_w_eq)
  note t1 = step_fresh_is_reset [of pendulum_env None "mk pendulum_env", OF _ a]
  note t2 = step_fresh_is_reset [of _ _ terminal_w "snd (run (mk pendulum_env) [Reset, Step])",
      OF _ b, unfolded c append.simps]
  show ?thesis
    using t1 t2 init_pendulum before_terminal by blast
qed

text \<open>
  Claim C3. After a successful construction, over a Box action space the Behavior Spec
  has \<open>action_size\<close> equal to the product of the dimensions of the shape and is
  continuous; over a Discrete space of \<open>k\<close> categories it has \<open>action_size\<close> equal
  to \<open>k\<close> and is not continuous. (\<open>action_size\<close> and \<open>is_action_continuous\<close> are
  the ones modelled from the spec.)
\<close>

theorem behavior_spec_action_size:
  assumes "init E nm = Inr w"
  shows "(\<forall>sh lo hi. action_space E = Box sh lo hi \<longrightarrow>
            action_size (behavior_specs w) = prod_list (map int sh) \<and>
            is_action_continuous (behavior_specs w)) \<and>
         (\<forall>k. action_space E = Discrete k \<longrightarrow>
            action_size (behavior_specs w) = k \<and> \<not> is_action_continuous (behavior_specs w))"
  using assms
  by (auto simp: init_def Let_def action_size_def is_action_continuous_def
           split: space.splits sum.splits prod.splits if_splits)

theorem behavior_spec_action_size_witness:
  "init grid_env None = Inr (mk grid_env) \<and>
   action_space grid_env = Box [2, 3] (replicate 6 (Fin (- 1))) (replicate 6 (Fin 1)) \<and>
   action_size (behavior_specs (mk grid_env)) = 6 \<and>
   is_action_continuous (behavior_specs (mk grid_env)) \<and>
   init discrete_env None = Inr (mk discrete_env) \<and>
   action_space discrete_env = Discrete 4 \<and>
   action_size (behavior_specs (mk discrete_env)) = 4 \<and>
   \<not> is_action_continuous (behavior_specs (mk discrete_env))"
proof -
  have g: "action_space grid_env = Box [2, 3] (replicate 6 (Fin (- 1))) (replicate 6 (Fin 1))"
    by (simp add: grid_env_def)
  have d: "action_space discrete_env = Discrete 4"
    by (simp add: discrete_env_def)
  show ?thesis
    using behavior_spec_action_size [OF init_grid] behavior_spec_action_size [OF init_discrete]
      init_grid init_discrete g d
    by simp
qed

text \<open>
  Claim C4. When the Decision Batch holds one agent, \<open>set_actions\<close> with the adapter's
  behavior name and an action whose shape is not \<open>(1, action_size)\<close> raises
  UnityActionException; its message is built from the behavior name, the expected shape
  \<open>(1, action_size)\<close> and the shape received, and the adapter, its pending action
  included, is left as it was.
\<close>

theorem set_actions_wrong_shape:
  assumes "len_steps (fst (current_steps w)) = 1"
    and "map int (shape action) \<noteq> [1, action_size (behavior_specs w)]"
  shows "set_actions w (behavior_name w) action =
     (Some (UnityActionException
        (Fmt ''The behavior {0} needs an input of dimension {1} but received input of dimension {2}''
           [ArgStr (behavior_name w), ArgShape [1, action_size (behavior_specs w)],
            ArgShape (map int (shape action))])), w) \<and>
     g_action (snd (set_actions w (behavior_name w) action)) = g_action w"
  using assms by (simp add: set_actions_def)

theorem set_actions_wrong_shape_witness:
  "len_steps (fst (current_steps running_w)) = 1 \<and>
   action_size (behavior_specs running_w) = 1 \<and>
   set_actions running_w ''gym_behavior_name''
       \<lparr>shape = [2, 1], dtype = float32, data = [Fin 1, Fin 1]\<rparr> =
     (Some (UnityActionException
        (Fmt ''The behavior {0} needs an input of dimension {1} but received input of dimension {2}''
           [ArgStr ''gym_behavior_name'', ArgShape [1, 1], ArgShape [2, 1]])), running_w) \<and>
   g_action running_w = ActNone"
  using set_actions_wrong_shape [of running_w "\<lparr>shape = [2, 1], dtype = float32, data = [Fin 1, Fin 1]\<rparr>"]
  by (simp add: running_w_eq mk_pendulum len_steps_def action_size_def)

text \<open>
  Claim C6. When the environment answers \<open>reset\<close> with an observation of the shape of
  the observation ratio, \<open>reset\<close> returns without an exception; afterwards the Decision
  Batch holds exactly the agent with the fixed identifier, the Terminal Batch holds no
  agent, the reward is 0, and the observation is the environment's observation divided
  entry by entry by the observation ratio (under a leading axis of length 1).
\<close>

theorem reset_decision_batch:
  assumes "env_reset (gym_env w) (env_state (gym_env w)) = (ob, s')"
    and "shape ob = shape (obs_ratio w)"
  shows "fst (reset w) = None \<and>
         agent_id (fst (current_steps (snd (reset w)))) = [AGENT_ID] \<and>
         len_steps (fst (current_steps (snd (reset w)))) = 1 \<and>
         len_steps (snd (current_steps (snd (reset w)))) = 0 \<and>
         reward (fst (current_steps (snd (reset w)))) = [Fin 0] \<and>
         obs (fst (current_steps (snd (reset w)))) =
           [\<lparr>shape = 1 # shape ob, dtype = result_type (dtype ob) (dtype (obs_ratio w)),
             data = map2 fdiv (data ob) (data (obs_ratio w))\<rparr>] \<and>
         \<not> first_message (snd (reset w))"
  by (simp add: reset_conforming [OF assms] len_steps_def TerminalSteps_empty_def normalized_def)

theorem reset_decision_batch_witness:
  "env_reset (gym_env terminal_w) (env_state (gym_env terminal_w)) = (vec float32 [5], 0) \<and>
   shape (vec float32 [5]) = shape (obs_ratio terminal_w) \<and>
   fst (reset terminal_w) = None \<and>
   agent_id (fst (current_steps (snd (reset terminal_w)))) = [1] \<and>
   len_steps (snd (current_steps (snd (reset terminal_w)))) = 0 \<and>
   reward (fst (current_steps (snd (reset terminal_w)))) = [Fin 0] \<and>
   obs (fst (current_steps (snd (reset terminal_w)))) =
     [\<lparr>shape = [1, 1], dtype = float32, data = [Fin (1 / 2)]\<rparr>]"
proof -
  have a: "env_reset (gym_env terminal_w) (env_state (gym_env terminal_w)) = (vec float32 [5], 0)"
    by (simp add: terminal_w_eq mk_pendulum) (simp add: pendulum_env_def)
  have b: "shape (vec float32 [5]) = shape (obs_ratio terminal_w)"
    by (simp add: terminal_w_eq mk_pendulum vec_def)
  have c: "data (obs_ratio terminal_w) = [Fin 10]" "dtype (obs_ratio terminal_w) = float32"
    by (simp_all add: terminal_w_eq mk_pendulum)
  show ?thesis
    using reset_decision_batch [OF a b] a b c
    by (simp add: vec_def result_type_def AGENT_ID_def)
qed

text \<open>
  Claim C10. \<open>reset\<close> leaves the pending action as it was. A \<open>step\<close> that follows a
  \<open>reset\<close> directly therefore passes the action stored before the reset to the
  environment's step, and that action is None when the adapter has just been built.
\<close>

theorem reset_keeps_pending_action:
  "g_action (snd (reset w)) = g_action w \<and>
   calls (gym_env (snd (step (snd (reset w))))) =
     calls (gym_env w) @ [CallReset, CallStep (g_action w)] \<and>
   (init E nm = Inr w \<longrightarrow>
      calls (gym_env (snd (step (snd (reset w))))) = calls E @ [CallReset, CallStep ActNone])"
proof -
  have a: "g_action (snd (reset w)) = g_action w"
    by (rule reset_frame)
  have b: "calls (gym_env (snd (step (snd (reset w))))) =
     calls (gym_env w) @ [CallReset, CallStep (g_action w)]"
    by (simp add: step_running_calls reset_frame)
  show ?thesis
    using a b by (auto dest: init_Inr(1) init_Inr(3))
qed

theorem reset_keeps_pending_action_witness:
  "init pendulum_env None = Inr (mk pendulum_env) \<and>
   g_action (snd (reset (mk pendulum_env))) = ActNone \<and>
   calls (gym_env (snd (step (snd (reset (mk pendulum_env)))))) = [CallReset, CallStep ActNone]"
proof -
  have "calls pendulum_env = []" "g_action (mk pendulum_env) = ActNone"
    "gym_env (mk pendulum_env) = pendulum_env"
    by (simp_all add: mk_pendulum) (simp add: pendulum_env_def)
  then show ?thesis
    using reset_keeps_pending_action [of "mk pendulum_env" pendulum_env None] init_pendulum
    by simp
qed

text \<open>
  Claim C7. When the Decision Batch is empty, \<open>set_actions\<close> with the adapter's
  behavior name returns without an exception for every action array and leaves the
  adapter, so also its pending action, unchanged.
\<close>

theorem set_actions_empty_batch_noop:
  assumes "len_steps (fst (current_steps w)) = 0"
  shows "set_actions w (behavior_name w) action = (None, w)"
  using assms by (simp add: set_actions_def)

theorem set_actions_empty_batch_noop_witness:
  "len_steps (fst (current_steps terminal_w)) = 0 \<and>
   len_steps (snd (current_steps terminal_w)) = 1 \<and>
   set_actions terminal_w (behavior_name terminal_w) \<lparr>shape = [1, 1], dtype = float32, data = [Fin 1]\<rparr> =
     (None, terminal_w)"
  using set_actions_empty_batch_noop [of terminal_w "\<lparr>shape = [1, 1], dtype = float32, data = [Fin 1]\<rparr>"]
  by (simp add: terminal_w_eq mk_pendulum len_steps_def)

section \<open>Normalisation\<close>

lemma coerce_float32 [simp]:
  "shape (coerce a float32) = shape a" "data (coerce a float32) = data a"
  "dtype (coerce a float32) = float32"
  by (simp_all add: coerce_def astype_def)

text \<open>
  Claim C5. Take an environment whose actions are a Box of size 1 with bounds
  \<open>[-2, 2]\<close>, whose observations are a Box of size 1 with bounds \<open>[0, 10]\<close>, and
  whose reset returns the observation \<open>[5]\<close>. Construction succeeds with observation
  ratio \<open>[10]\<close> and action ratio \<open>[2]\<close>; \<open>reset\<close> puts the observation \<open>[0.5]\<close>
  into the Decision Batch; \<open>set_actions\<close> with the array \<open>[[1.0]]\<close> stores the
  pending action \<open>[0.5]\<close>, the first row divided by the action ratio; and the next
  \<open>step\<close> passes that array \<open>[0.5]\<close> to the step of the environment.
\<close>

theorem normalization_scenario:
  assumes "action_space E = Box [1] [Fin (- 2)] [Fin 2]"
    and "observation_space E = Box [1] [Fin 0] [Fin 10]"
    and "env_reset E (env_state E) = (ob, s1)"
    and "shape ob = [1]" and "data ob = [Fin 5]"
    and "shape action = [1, 1]" and "data action = [Fin 1]"
  shows "\<exists>w0 w1 w2 q.
           init E nm = Inr w0 \<and>
           data (obs_ratio w0) = [Fin 10] \<and>
           map_option data (act_ratio w0) = Some [Fin 2] \<and>
           reset w0 = (None, w1) \<and>
           map data (obs (fst (current_steps w1))) = [[Fin (1 / 2)]] \<and>
           set_actions w1 (behavior_name w1) action = (None, w2) \<and>
           g_action w2 = ActArray q \<and> shape q = [1] \<and> data q = [Fin (1 / 2)] \<and>
           calls (gym_env (snd (step w2))) = calls E @ [CallReset, CallStep (ActArray q)]"
proof -
  obtain w0 where w0: "init E nm = Inr w0"
    using assms(1,2) by (simp add: init_def Let_def)
  have env0: "gym_env w0 = E"
    by (rule init_Inr(1) [OF w0])
  have oratio: "obs_ratio w0 = \<lparr>shape = [1], dtype = float32, data = [Fin 10]\<rparr>"
    using init_Inr(6) [OF w0] assms(2)
    by (auto simp: normalization_ratio_def clamp_ratio_def)
  have aratio: "act_ratio w0 = Some \<lparr>shape = [1], dtype = float32, data = [Fin 2]\<rparr>"
    using init_Inr(7) [OF w0] assms(1) env0
    by (simp add: consistent_def normalization_ratio_def clamp_ratio_def)
  have asize: "action_size (behavior_specs w0) = 1"
    using init_Inr(7) [OF w0] assms(1) env0
    by (simp add: consistent_def action_size_def)
  have cont: "expected_type (behavior_specs w0) = float32"
    using init_Inr(7) [OF w0] assms(1) env0
    by (simp add: consistent_def expected_type_def is_action_continuous_def)
  define w1 where "w1 = snd (reset w0)"
  have r: "env_reset (gym_env w0) (env_state (gym_env w0)) = (ob, s1)"
    using assms(3) env0 by simp
  have sh: "shape ob = shape (obs_ratio w0)"
    using assms(4) oratio by simp
  note w1_eq = reset_conforming [OF r sh]
  have reset: "reset w0 = (None, w1)"
    by (simp add: w1_def w1_eq)
  have w1_fields: "behavior_specs w1 = behavior_specs w0" "act_ratio w1 = act_ratio w0"
    "action_space (gym_env w1) = action_space E" "\<not> first_message w1"
    "calls (gym_env w1) = calls E @ [CallReset]"
    "len_steps (fst (current_steps w1)) = 1"
    by (simp_all add: w1_def w1_eq env0 len_steps_def)
  have ob1: "map data (obs (fst (current_steps w1))) = [[Fin (1 / 2)]]"
    by (simp add: w1_def w1_eq normalized_def oratio assms(5))
  define q where "q = \<lparr>shape = [1], dtype = float32, data = [Fin (1 / 2)]\<rparr>"
  define w2 where "w2 = w1\<lparr>g_action := ActArray q\<rparr>"
  have set: "set_actions w1 (behavior_name w1) action = (None, w2)"
    by (simp add: set_actions_def w1_fields asize cont assms(1,6,7) store_action_def index0_def
          aratio np_divide_same_shape result_type_def w2_def q_def)
  have "calls (gym_env (snd (step w2))) = calls (gym_env w2) @ [CallStep (g_action w2)]"
    by (rule step_running_calls) (simp add: w2_def w1_fields)
  then have calls: "calls (gym_env (snd (step w2))) = calls E @ [CallReset, CallStep (ActArray q)]"
    by (simp add: w2_def w1_fields)
  show ?thesis
    using w0 oratio aratio reset ob1 set calls
    by (intro exI [of _ w0] exI [of _ w1] exI [of _ w2] exI [of _ q]) (simp add: w2_def q_def)
qed

theorem normalization_scenario_witness:
  "\<exists>w0 w1 w2 q.
     init pendulum_env None = Inr w0 \<and>
     data (obs_ratio w0) = [Fin 10] \<and>
     map_option data (act_ratio w0) = Some [Fin 2] \<and>
     reset w0 = (None, w1) \<and>
     map data (obs (fst (current_steps w1))) = [[Fin (1 / 2)]] \<and>
     set_actions w1 (behavior_name w1) \<lparr>shape = [1, 1], dtype = float64, data = [Fin 1]\<rparr> = (None, w2) \<and>
     g_action w2 = ActArray q \<and> shape q = [1] \<and> data q = [Fin (1 / 2)] \<and>
     calls (gym_env (snd (step w2))) = [CallReset, CallStep (ActArray q)]"
  using normalization_scenario [of pendulum_env "vec float32 [5]" 0
      "\<lparr>shape = [1, 1], dtype = float64, data = [Fin 1]\<rparr>" None]
  by (simp add: pendulum_env_def vec_def)

lemma fmul_fdiv_cancel: "r \<noteq> 0 \<Longrightarrow> fmul (fdiv x (Fin r)) (Fin r) = x"
  by (cases x) (auto simp: inf_of_sign_def sgn_if)

lemma init_point: "init point_env None = Inr (mk point_env)"
  by (simp add: mk_def init_def point_env_def pendulum_env_def Let_def)

text \<open>
  The round trip of claim C8 fails where the ratio is 0. Over an observation space whose
  bounds are both 0 the ratio is \<open>[0]\<close>, below the threshold and so not clamped; the
  observation \<open>[0]\<close> of that space is normalised to NaN, and NaN times 0 is NaN, not 0.
\<close>

theorem round_trip_zero_ratio_counterexample:
  "observation_space point_env = Box [1] [Fin 0] [Fin 0] \<and>
   unclamped [Fin 0] [Fin 0] 0 \<and>
   obs_ratio (mk point_env) = \<lparr>shape = [1], dtype = float32, data = [Fin 0]\<rparr> \<and>
   fst (env_reset point_env 0) = \<lparr>shape = [1], dtype = float32, data = [Fin 0]\<rparr> \<and>
   round_trip (fst (env_reset point_env 0)) (obs_ratio (mk point_env)) =
     Inr \<lparr>shape = [1], dtype = float32, data = [NaN]\<rparr>"
  by (simp add: unclamped_def mk_def init_def point_env_def pendulum_env_def Let_def
        normalization_ratio_def clamp_ratio_def round_trip_def np_divide_def np_multiply_def
        np_binop_def vec_def result_type_def inf_of_sign_def)

text \<open>
  Claim C8, amended. For every raw observation and every dimension whose ratio entry
  was not clamped to 1 and is a finite number other than 0, multiplying the normalised
  observation by the ratio gives back the raw entry (finite arithmetic being exact here).
\<close>

theorem round_trip_recovers:
  assumes "shape ob = sh"
    and "i < length (data ob)" and "i < length lo" and "i < length hi"
    and "unclamped lo hi i"
    and "fmax (hi ! i) (fneg (lo ! i)) = Fin r" and "r \<noteq> 0"
  shows "\<exists>q. round_trip ob (normalization_ratio sh lo hi) = Inr q \<and> data q ! i = data ob ! i"
proof -
  let ?ratio = "normalization_ratio sh lo hi"
  have sh: "shape ob = shape ?ratio"
    using assms(1) by (simp add: normalization_ratio_def)
  have len: "i < length (data ?ratio)"
    using assms(3,4) by (simp add: normalization_ratio_def)
  have entry: "data ?ratio ! i = Fin r"
    using assms(3-6) by (simp add: normalization_ratio_def clamp_ratio_def unclamped_def)
  have "round_trip ob ?ratio =
          Inr \<lparr>shape = shape ob,
               dtype = result_type (result_type (dtype ob) (dtype ?ratio)) (dtype ?ratio),
               data = map2 fmul (map2 fdiv (data ob) (data ?ratio)) (data ?ratio)\<rparr>"
    using sh by (simp add: round_trip_def np_divide_same_shape np_multiply_same_shape)
  moreover have "map2 fmul (map2 fdiv (data ob) (data ?ratio)) (data ?ratio) ! i = data ob ! i"
    using assms(2) len entry assms(7) by (simp add: fmul_fdiv_cancel)
  ultimately show ?thesis
    by simp
qed

theorem round_trip_recovers_witness:
  "unclamped [Fin 0] [Fin 10] 0 \<and>
   fmax ([Fin 10] ! 0) (fneg ([Fin 0] ! 0)) = Fin 10 \<and>
   (\<exists>q. round_trip (vec float32 [5]) (normalization_ratio [1] [Fin 0] [Fin 10]) = Inr q \<and>
        data q ! 0 = Fin 5)"
  using round_trip_recovers [of "vec float32 [5]" "[1]" 0 "[Fin 0]" "[Fin 10]" 10]
  by (simp add: vec_def unclamped_def)

section \<open>Actions for one agent\<close>

lemma mk_grid:
  "mk grid_env =
     \<lparr>gym_env = grid_env, first_message = True, behavior_name = ''gym_behavior_name'',
      act_ratio = Some \<lparr>shape = [2, 3], dtype = float32, data = replicate 6 (Fin 1)\<rparr>,
      obs_ratio = \<lparr>shape = [1], dtype = float32, data = [Fin 10]\<rparr>,
      behavior_specs = \<lparr>observation_shapes = [[1]], action_type = CONTINUOUS,
                        action_shape = ShapeInt 6\<rparr>,
      g_action = ActNone,
      current_steps =
        (\<lparr>obs = [\<lparr>shape = [0, 1], dtype = float32, data = []\<rparr>], reward = [], agent_id = [],
          action_mask = None\<rparr>,
         \<lparr>obs = [\<lparr>shape = [0, 1], dtype = float32, data = []\<rparr>], reward = [], agent_id = [],
          interrupted = []\<rparr>)\<rparr>"
  by (simp add: mk_def init_def grid_env_def pendulum_env_def Let_def normalization_ratio_def
        clamp_ratio_def DEFAULT_BEHAVIOR_NAME_def DecisionSteps_empty_def TerminalSteps_empty_def
        empty_obs_def numeral_eq_Suc)

text \<open>
  Over a Box of one dimension \<open>set_action_for_agent\<close> stores the action divided
  by the action ratio, whatever the Current Step Pair is: it never looks at the number
  of agents in the Decision Batch.
\<close>

lemma set_action_for_agent_vector_box:
  assumes "consistent w"
    and "action_space (gym_env w) = Box [k] lo hi"
    and "shape action = [k]"
  shows "set_action_for_agent w (behavior_name w) AGENT_ID action =
           (None, w\<lparr>g_action := ActArray
              \<lparr>shape = [k], dtype = float32,
               data = map2 fdiv (data action) (data (normalization_ratio [k] lo hi))\<rparr>\<rparr>)"
proof -
  from assms(1,2) have
    ratio: "act_ratio w = Some (normalization_ratio [k] lo hi)" and
    cont: "expected_type (behavior_specs w) = float32" and
    size: "action_size (behavior_specs w) = int k"
    by (simp_all add: consistent_def expected_type_def is_action_continuous_def action_size_def)
  have "shape (coerce action float32) = shape (normalization_ratio [k] lo hi)"
    using assms(3) by (simp add: normalization_ratio_def)
  from np_divide_same_shape [OF this] assms(3)
  have "np_divide (coerce action float32) (normalization_ratio [k] lo hi) =
          Inr \<lparr>shape = [k], dtype = float32,
               data = map2 fdiv (data action) (data (normalization_ratio [k] lo hi))\<rparr>"
    by (simp add: normalization_ratio_def result_type_def)
  then show ?thesis
    using assms(2,3)
    by (simp add: set_action_for_agent_def store_action_def ratio cont size)
qed

text \<open>
  Claim C9: \<open>set_action_for_agent\<close> with the adapter's behavior name, the fixed agent
  identifier and an action of shape \<open>(action_size,)\<close> stores the pending action, also
  when the Decision Batch is empty. The code does not do so over a Box of more than one
  dimension. Over a two-by-three Box of actions \<open>action_size\<close> is the product 6; an
  action of shape \<open>(6,)\<close> passes the shape test of the method and is then divided by
  the action ratio, which has kept the shape \<open>(2, 3)\<close>: the shapes do not broadcast,
  the call raises ValueError and the pending action stays None.
\<close>

theorem set_action_for_agent_grid_raises:
  "init grid_env None = Inr (mk grid_env) \<and>
   action_size (behavior_specs (mk grid_env)) = 6 \<and>
   len_steps (fst (current_steps (mk grid_env))) = 0 \<and>
   g_action (mk grid_env) = ActNone \<and>
   set_action_for_agent (mk grid_env) (behavior_name (mk grid_env)) AGENT_ID
       \<lparr>shape = [6], dtype = float32, data = replicate 6 (Fin 1)\<rparr> =
     (Some ValueError, mk grid_env)"
proof -
  have "action_size (behavior_specs (mk grid_env)) = 6 \<and>
        len_steps (fst (current_steps (mk grid_env))) = 0 \<and>
        g_action (mk grid_env) = ActNone \<and>
        set_action_for_agent (mk grid_env) (behavior_name (mk grid_env)) AGENT_ID
            \<lparr>shape = [6], dtype = float32, data = replicate 6 (Fin 1)\<rparr> =
          (Some ValueError, mk grid_env)"
    unfolding mk_grid
    by (simp add: action_size_def len_steps_def set_action_for_agent_def expected_type_def
          is_action_continuous_def coerce_def store_action_def grid_env_def np_divide_def
          np_binop_def broadcast_shapes_def)
  with init_grid show ?thesis
    by simp
qed

end
